theory Spec2Isabelle
  imports Complex_Main
begin

section \<open>Data model of \<open>initialize.py\<close>\<close>

subsection \<open>Values of the session state\<close>

text \<open>
  \<open>st.session_state\<close> is a dictionary from attribute names to Python values. The values
  the module stores are empty lists, an integer, booleans, strings, references to library
  objects (the token encoder, the chat model, the four retrieval chains) and the agent
  executor. A library object is an opaque reference.
\<close>

datatype obj = Obj nat

text \<open>
  The \<open>func\<close> argument of a \<open>Tool\<close>: four functions of \<open>utils\<close> and the bound method
  \<open>search.run\<close> of the \<open>SerpAPIWrapper\<close> object created in the same call.
\<close>

datatype tool_func =
    run_company_doc_chain
  | run_service_doc_chain
  | run_customer_doc_chain
  | search_run obj
  | run_all_data_doc_chain

text \<open>
  The five \<open>description\<close> literals of the source are Japanese text; each is represented
  by a constructor named after what the text says the tool searches (company information,
  service information, customer communication, the web, all data).
\<close>

datatype tool_description =
    CompanyInfoDescription
  | ServiceInfoDescription
  | CustomerCommunicationDescription
  | WebInfoDescription
  | AllDataDescription

record tool =
  name :: string
  func :: tool_func
  description :: tool_description

datatype agent_type = ZERO_SHOT_REACT_DESCRIPTION

text \<open>
  The object \<open>initialize_agent\<close> returns, as the keyword arguments it was built from.
\<close>

record agent_executor =
  llm :: obj
  tools :: "tool list"
  agent :: agent_type
  max_iterations :: int
  early_stopping_method :: string
  handle_parsing_errors :: bool

datatype val =
    VList "val list"
  | VInt int
  | VBool bool
  | VStr string
  | VObj obj
  | VAgent agent_executor

type_synonym session = "string \<rightharpoonup> val"

subsection \<open>The logging module and the file system\<close>

datatype handler_class = TimedRotatingFileHandler | OtherHandler

text \<open>
  A handler: its class, the path it writes to, the \<open>when\<close> argument of the rotation, the
  encoding and the format string of its formatter (\<open>None\<close> until \<open>setFormatter\<close>).
\<close>

record handler =
  cls :: handler_class
  filename :: string
  when_arg :: string
  encoding :: string
  formatter :: "string option"




text \<open>\<open>logging.NOTSET\<close> is 0 and \<open>logging.INFO\<close> is 20.\<close>

definition NOTSET :: nat where
  "NOTSET = 0"

definition INFO :: nat where
  "INFO = 20"

record logger =
  handlers :: "handler list"
  level :: nat
  propagate :: bool

text \<open>
  \<open>Logger.hasHandlers\<close> of the standard library walks from the logger to its parents:
  it answers \<open>True\<close> at the first logger that has a handler, and stops with \<open>False\<close> at a
  logger that does not propagate or after the root. The list is the logger followed by its
  ancestors, the root last.
\<close>

fun hasHandlers :: "logger list \<Rightarrow> bool" where
  "hasHandlers [] = False"
| "hasHandlers (c # cs) =
     (if handlers c \<noteq> [] then True
      else if \<not> propagate c then False
      else hasHandlers cs)"

datatype node = Dir | File

type_synonym filesystem = "string \<rightharpoonup> node"

datatype error =
    FileNotFoundError
  | FileExistsError
  | IsADirectoryError
  | AttributeError string
  | ExternalError string

text \<open>
  \<open>os.makedirs(path, exist_ok=True)\<close>: the empty path is refused, an existing directory is
  left as it is, an existing file is an error, and otherwise the directory is created.
  Paths are compared as written, and permissions are not modelled.
\<close>

definition makedirs :: "string \<Rightarrow> filesystem \<Rightarrow> error + filesystem" where
  "makedirs p f =
     (if p = [] then Inl FileNotFoundError
      else case f p of
        None \<Rightarrow> Inr (f(p \<mapsto> Dir))
      | Some Dir \<Rightarrow> Inr f
      | Some File \<Rightarrow> Inl FileExistsError)"

text \<open>
  The handler's constructor opens its file for appending at once (\<open>delay\<close> is off): a
  directory at that path is an error, otherwise the file exists afterwards.
\<close>

definition open_append :: "string \<Rightarrow> filesystem \<Rightarrow> error + filesystem" where
  "open_append p f =
     (case f p of
        Some Dir \<Rightarrow> Inl IsADirectoryError
      | _ \<Rightarrow> Inr (f(p \<mapsto> File)))"

text \<open>\<open>os.path.join\<close> of two components (POSIX).\<close>

definition path_join :: "string \<Rightarrow> string \<Rightarrow> string" where
  "path_join a b =
     (if b \<noteq> [] \<and> hd b = CHR ''/'' then b
      else if a = [] \<or> last a = CHR ''/'' then a @ b
      else a @ ''/'' @ b)"

subsection \<open>Configuration and external collaborators\<close>

text \<open>
  The module \<open>constants\<close> (imported as \<open>ct\<close>) is not part of the sources read here; the
  constants \<open>initialize.py\<close> uses are parameters.
\<close>

record constants =
  LOG_DIR_PATH :: string
  LOGGER_NAME :: string
  LOG_FILE :: string
  ENCODING_KIND :: string
  MODEL :: string
  TEMPERATURE :: real
  DB_CUSTOMER_PATH :: string
  DB_SERVICE_PATH :: string
  DB_COMPANY_PATH :: string
  DB_ALL_PATH :: string
  SEARCH_COMPANY_INFO_TOOL_NAME :: string
  SEARCH_SERVICE_INFO_TOOL_NAME :: string
  SEARCH_CUSTOMER_COMMUNICATION_INFO_TOOL_NAME :: string
  SEARCH_WEB_INFO_TOOL_NAME :: string
  SEARCH_ALL_DATA_TOOL_NAME :: string
  AI_AGENT_MAX_ITERATIONS :: int

text \<open>
  What the module calls outside itself. \<open>uuid4_hex n\<close> is the hexadecimal text of the
  \<open>n\<close>-th identifier \<open>uuid4()\<close> draws in the process. \<open>str_of\<close> is Python's \<open>str\<close> on a
  value that is not a string. The constructors of the libraries and \<open>utils.create_rag_chain\<close>
  either raise (\<open>Inl\<close>, with a message) or return an object; \<open>create_rag_chain\<close> may read
  the session state, and none of them changes the state modelled here.
\<close>

record env =
  ct :: constants
  uuid4_hex :: "nat \<Rightarrow> string"
  str_of :: "val \<Rightarrow> string"
  get_encoding :: "string \<Rightarrow> string + obj"
  ChatOpenAI :: "string \<Rightarrow> real \<Rightarrow> string + obj"
  create_rag_chain :: "string \<Rightarrow> session \<Rightarrow> string + obj"
  SerpAPIWrapper :: "string + obj"

subsection \<open>The state the module reads and writes\<close>

text \<open>
  The session state of the running session, the logger named \<open>ct.LOGGER_NAME\<close> with its
  ancestors (the root last), the file system and the number of identifiers drawn so far.
\<close>

record world =
  session_state :: session
  app_logger :: logger
  logger_ancestors :: "logger list"
  fs :: filesystem
  uuid_calls :: nat

section \<open>The functions of \<open>initialize.py\<close>\<close>

definition set_attr :: "string \<Rightarrow> val \<Rightarrow> world \<Rightarrow> world" where
  "set_attr k v w = w\<lparr>session_state := (session_state w)(k \<mapsto> v)\<rparr>"

definition initialize_session_state :: "world \<Rightarrow> world" where
  "initialize_session_state w =
     (if session_state w ''messages'' = None then
        (set_attr ''feedback_no_reason_send_flg'' (VBool False)
        (set_attr ''dissatisfied_reason'' (VStr [])
        (set_attr ''answer_flg'' (VBool False)
        (set_attr ''feedback_no_flg'' (VBool False)
        (set_attr ''feedback_yes_flg'' (VBool False)
        (set_attr ''total_tokens'' (VInt 0)
        (set_attr ''chat_history'' (VList [])
        (set_attr ''messages'' (VList []) w))))))))
      else w)"

definition initialize_session_id :: "env \<Rightarrow> world \<Rightarrow> world" where
  "initialize_session_id e w =
     (if session_state w ''session_id'' = None then
        (set_attr ''session_id'' (VStr (uuid4_hex e (uuid_calls w))) w)
          \<lparr>uuid_calls := Suc (uuid_calls w)\<rparr>
      else w)"

text \<open>An f-string field: a string is inserted as it is, another value through \<open>str\<close>.\<close>

definition fstring_field :: "env \<Rightarrow> val \<Rightarrow> string" where
  "fstring_field e v = (case v of VStr s \<Rightarrow> s | _ \<Rightarrow> str_of e v)"

definition log_format :: "string \<Rightarrow> string" where
  "log_format sid =
     ''[%(levelname)s] %(asctime)s line %(lineno)s, in %(funcName)s, session_id=''
       @ sid @ '': %(message)s''"

text \<open>
  A call returns the exception it raised, if any, with the state as the exception left it.
\<close>

definition initialize_logger :: "env \<Rightarrow> world \<Rightarrow> error option \<times> world" where
  "initialize_logger e w =
     (case makedirs (LOG_DIR_PATH (ct e)) (fs w) of
        Inl err \<Rightarrow> (Some err, w)
      | Inr f1 \<Rightarrow>
          let w1 = w\<lparr>fs := f1\<rparr> in
          if hasHandlers (app_logger w1 # logger_ancestors w1) then (None, w1)
          else
            let path = path_join (LOG_DIR_PATH (ct e)) (LOG_FILE (ct e)) in
            (case open_append path f1 of
              Inl err \<Rightarrow> (Some err, w1)
            | Inr f2 \<Rightarrow>
                let w2 = w1\<lparr>fs := f2\<rparr>;
                    log_handler = \<lparr>cls = TimedRotatingFileHandler, filename = path,
                                   when_arg = ''D'', encoding = ''utf8'', formatter = None\<rparr>
                in
                (case session_state w2 ''session_id'' of
                  None \<Rightarrow> (Some (AttributeError ''session_id''), w2)
                | Some sid \<Rightarrow>
                    let fmt = log_format (fstring_field e sid);
                        log_handler = log_handler\<lparr>formatter := Some fmt\<rparr>;
                        lg = (app_logger w2)\<lparr>level := INFO\<rparr>;
                        lg = lg\<lparr>handlers := handlers lg @ [log_handler]\<rparr>
                    in (None, w2\<lparr>app_logger := lg\<rparr>))))"

definition tool_list :: "constants \<Rightarrow> obj \<Rightarrow> tool list" where
  "tool_list c search =
     [\<lparr>name = SEARCH_COMPANY_INFO_TOOL_NAME c, func = run_company_doc_chain,
        description = CompanyInfoDescription\<rparr>,
      \<lparr>name = SEARCH_SERVICE_INFO_TOOL_NAME c, func = run_service_doc_chain,
        description = ServiceInfoDescription\<rparr>,
      \<lparr>name = SEARCH_CUSTOMER_COMMUNICATION_INFO_TOOL_NAME c, func = run_customer_doc_chain,
        description = CustomerCommunicationDescription\<rparr>,
      \<lparr>name = SEARCH_WEB_INFO_TOOL_NAME c, func = search_run search,
        description = WebInfoDescription\<rparr>,
      \<lparr>name = SEARCH_ALL_DATA_TOOL_NAME c, func = run_all_data_doc_chain,
        description = AllDataDescription\<rparr>]"

text \<open>
  \<open>initialize_agent\<close> of the agent library keeps its arguments in the executor it returns.
\<close>

definition initialize_agent ::
    "obj \<Rightarrow> tool list \<Rightarrow> agent_type \<Rightarrow> int \<Rightarrow> string \<Rightarrow> bool \<Rightarrow> agent_executor" where
  "initialize_agent l ts a m stop hp =
     \<lparr>llm = l, tools = ts, agent = a, max_iterations = m,
      early_stopping_method = stop, handle_parsing_errors = hp\<rparr>"

text \<open>
  One assignment \<open>st.session_state.k = f(...)\<close> whose right-hand side may raise: the
  exception leaves the state as it was before the assignment.
\<close>

definition assign :: "string \<Rightarrow> string + obj \<Rightarrow> world \<Rightarrow> error option \<times> world" where
  "assign k r w =
     (case r of
        Inl msg \<Rightarrow> (Some (ExternalError msg), w)
      | Inr x \<Rightarrow> (None, set_attr k (VObj x) w))"

text \<open>
  The logger \<open>initialize_agent_executor\<close> looks up in its first line is not used in the
  function. \<open>llm=st.session_state.llm\<close> reads back the object stored a few lines before.
\<close>

definition initialize_agent_executor :: "env \<Rightarrow> world \<Rightarrow> error option \<times> world" where
  "initialize_agent_executor e w =
     (if session_state w ''agent_executor'' \<noteq> None then (None, w)
      else
        (case assign ''enc'' (get_encoding e (ENCODING_KIND (ct e))) w of
          (Some err, w1) \<Rightarrow> (Some err, w1)
        | (None, w1) \<Rightarrow>
        (case ChatOpenAI e (MODEL (ct e)) (TEMPERATURE (ct e)) of
          Inl msg \<Rightarrow> (Some (ExternalError msg), w1)
        | Inr l \<Rightarrow>
        (let w2 = set_attr ''llm'' (VObj l) w1 in
        (case assign ''customer_doc_chain''
               (create_rag_chain e (DB_CUSTOMER_PATH (ct e)) (session_state w2)) w2 of
          (Some err, w3) \<Rightarrow> (Some err, w3)
        | (None, w3) \<Rightarrow>
        (case assign ''service_doc_chain''
               (create_rag_chain e (DB_SERVICE_PATH (ct e)) (session_state w3)) w3 of
          (Some err, w4) \<Rightarrow> (Some err, w4)
        | (None, w4) \<Rightarrow>
        (case assign ''company_doc_chain''
               (create_rag_chain e (DB_COMPANY_PATH (ct e)) (session_state w4)) w4 of
          (Some err, w5) \<Rightarrow> (Some err, w5)
        | (None, w5) \<Rightarrow>
        (case assign ''rag_chain''
               (create_rag_chain e (DB_ALL_PATH (ct e)) (session_state w5)) w5 of
          (Some err, w6) \<Rightarrow> (Some err, w6)
        | (None, w6) \<Rightarrow>
        (case SerpAPIWrapper e of
          Inl msg \<Rightarrow> (Some (ExternalError msg), w6)
        | Inr search \<Rightarrow>
            (None,
             set_attr ''agent_executor''
               (VAgent (initialize_agent l (tool_list (ct e) search)
                          ZERO_SHOT_REACT_DESCRIPTION (AI_AGENT_MAX_ITERATIONS (ct e))
                          ''generate'' True))
               w6))))))))))"

definition initialize :: "env \<Rightarrow> world \<Rightarrow> error option \<times> world" where
  "initialize e w =
     (let w1 = initialize_session_state w;
          w2 = initialize_session_id e w1
      in case initialize_logger e w2 of
           (Some err, w3) \<Rightarrow> (Some err, w3)
         | (None, w3) \<Rightarrow> initialize_agent_executor e w3)"

text \<open>
  The handler \<open>initialize_logger\<close> attaches when it reaches \<open>addHandler\<close>, for the value
  \<open>sid\<close> of \<open>st.session_state.session_id\<close>.
\<close>

definition attached_handler :: "env \<Rightarrow> val \<Rightarrow> handler" where
  "attached_handler e sid =
     \<lparr>cls = TimedRotatingFileHandler,
      filename = path_join (LOG_DIR_PATH (ct e)) (LOG_FILE (ct e)),
      when_arg = ''D'', encoding = ''utf8'',
      formatter = Some (log_format (fstring_field e sid))\<rparr>"

text \<open>\<open>n\<close> calls of \<open>initialize_logger\<close> in a row; an exception ends the run.\<close>

fun repeat_initialize_logger :: "nat \<Rightarrow> env \<Rightarrow> world \<Rightarrow> error option \<times> world" where
  "repeat_initialize_logger 0 e w = (None, w)"
| "repeat_initialize_logger (Suc n) e w =
     (case initialize_logger e w of
        (Some err, w') \<Rightarrow> (Some err, w')
      | (None, w') \<Rightarrow> repeat_initialize_logger n e w')"

section \<open>The loop of the agent controller\<close>

text \<open>
  The executor stored under \<open>agent_executor\<close> is run by the agent library, whose loop is
  not part of \<open>initialize.py\<close>. The definitions of this section follow the specification's
  description of the controller (its section 4.1 and the tagged decision of its design
  notes); the executor's fields are the arguments \<open>initialize_agent_executor\<close> passes.
\<close>

text \<open>
  Modelled from the spec: the result of one model call, a tool call with a tool name and an
  input, a final answer, or text that does not parse as either.
\<close>

datatype decision = ToolCall string string | FinalAnswer string | ParseError string

text \<open>
  Modelled from the spec: the faults a turn can end with. The specification names the
  malformed output raised as a fault and the erroring on exhausted iterations as what the
  configured policies replace, and the failure of a tool as passed on unhandled.
\<close>

datatype fault = ParsingFault string | IterationLimitFault | ToolFault string

text \<open>
  Modelled from the spec: the states of the controller. \<open>ACTING\<close> holds the parsed tool
  name and input, \<open>OBSERVING\<close> the text the tool returned, \<open>ANSWERING\<close> the final answer;
  \<open>ANSWERING\<close> and \<open>FAULTED\<close> are terminal.
\<close>

datatype phase =
    THINKING
  | ACTING string string
  | OBSERVING string
  | ANSWERING string
  | FAULTED fault

text \<open>
  Modelled from the spec: the external collaborators of the loop, the model call on the
  context so far, the tool adapters by name, the generation of the best-effort answer and
  the text of the observation that describes a parse failure.
\<close>

record collaborators =
  model_output :: "string list \<Rightarrow> decision"
  invoke_tool :: "string \<Rightarrow> string \<Rightarrow> string + string"
  generate_answer :: "string list \<Rightarrow> string"
  parse_failure_observation :: "string \<Rightarrow> string"

text \<open>
  Modelled from the spec: the state of one user turn, with the iteration counter, the
  context (the query, then the observations in order) and the number of tool invocations.
\<close>

record turn =
  phase :: phase
  iterations :: nat
  ctx :: "string list"
  tool_invocations :: nat
  forced :: bool

text \<open>Modelled from the spec: a turn starts in \<open>THINKING\<close> with the counter at zero.\<close>

definition start_turn :: "string \<Rightarrow> turn" where
  "start_turn query =
     \<lparr>phase = THINKING, iterations = 0, ctx = [query], tool_invocations = 0, forced = False\<rparr>"

text \<open>Modelled from the spec: the terminal states, in which the loop stops.\<close>

fun terminal :: "phase \<Rightarrow> bool" where
  "terminal (ANSWERING t) = True"
| "terminal (FAULTED f) = True"
| "terminal _ = False"

text \<open>
  Modelled from the spec: one transition of the controller. In \<open>THINKING\<close> the turn is
  ended by force once the counter has reached \<open>max_iterations\<close>; otherwise the model's
  output decides, and output that fails to parse is fed back as an observation, which
  consumes one iteration. \<open>ACTING\<close> invokes the tool, \<open>OBSERVING\<close> appends its result to
  the context and completes the cycle, which increments the counter.
\<close>

definition step :: "agent_executor \<Rightarrow> collaborators \<Rightarrow> turn \<Rightarrow> turn" where
  "step ae c s =
     (case phase s of
        THINKING \<Rightarrow>
          if max_iterations ae \<le> int (iterations s) then
            (if early_stopping_method ae = ''generate''
             then s\<lparr>phase := ANSWERING (generate_answer c (ctx s)), forced := True\<rparr>
             else s\<lparr>phase := FAULTED IterationLimitFault\<rparr>)
          else
            (case model_output c (ctx s) of
               FinalAnswer t \<Rightarrow> s\<lparr>phase := ANSWERING t\<rparr>
             | ToolCall n i \<Rightarrow> s\<lparr>phase := ACTING n i\<rparr>
             | ParseError raw \<Rightarrow>
                 if handle_parsing_errors ae
                 then s\<lparr>ctx := ctx s @ [parse_failure_observation c raw],
                        iterations := Suc (iterations s)\<rparr>
                 else s\<lparr>phase := FAULTED (ParsingFault raw)\<rparr>)
      | ACTING n i \<Rightarrow>
          (case invoke_tool c n i of
             Inl msg \<Rightarrow> s\<lparr>phase := FAULTED (ToolFault msg),
                           tool_invocations := Suc (tool_invocations s)\<rparr>
           | Inr r \<Rightarrow> s\<lparr>phase := OBSERVING r,
                         tool_invocations := Suc (tool_invocations s)\<rparr>)
      | OBSERVING r \<Rightarrow>
          s\<lparr>phase := THINKING, ctx := ctx s @ [r], iterations := Suc (iterations s)\<rparr>
      | ANSWERING t \<Rightarrow> s
      | FAULTED f \<Rightarrow> s)"

text \<open>The transitions a turn can still take: the measure of the loop.\<close>

definition steps_left :: "agent_executor \<Rightarrow> turn \<Rightarrow> nat" where
  "steps_left ae s =
     (let r = nat (max_iterations ae) - iterations s in
      case phase s of
        THINKING \<Rightarrow> (if max_iterations ae \<le> int (iterations s) then 1 else 3 * r + 4)
      | ACTING n i \<Rightarrow> 3 * r + 3
      | OBSERVING x \<Rightarrow> 3 * r + 2
      | ANSWERING t \<Rightarrow> 0
      | FAULTED f \<Rightarrow> 0)"

text \<open>Modelled from the spec: the loop takes transitions until the state is terminal.\<close>

function run_turn :: "agent_executor \<Rightarrow> collaborators \<Rightarrow> turn \<Rightarrow> turn" where
  "run_turn ae c s = (if terminal (phase s) then s else run_turn ae c (step ae c s))"
  by pat_completeness auto
termination
proof (relation "measure (\<lambda>(ae, c, s). steps_left ae s)")
  show "wf (measure (\<lambda>(ae, c, s). steps_left ae s))"
    by simp
next
  fix ae :: agent_executor and c :: collaborators and s :: turn
  assume "\<not> terminal (phase s)"
  then have "steps_left ae (step ae c s) < steps_left ae s"
    by (cases "phase s")
      (auto simp: step_def steps_left_def Let_def split: decision.splits sum.splits)
  then show "((ae, c, step ae c s), (ae, c, s)) \<in> measure (\<lambda>(ae, c, s). steps_left ae s)"
    by simp
qed

declare run_turn.simps [simp del]

text \<open>The bound on tool invocations that every transition keeps.\<close>

definition within_bound :: "agent_executor \<Rightarrow> turn \<Rightarrow> bool" where
  "within_bound ae s =
     (tool_invocations s \<le> nat (max_iterations ae) \<and>
      (case phase s of
         THINKING \<Rightarrow> tool_invocations s \<le> iterations s
       | ACTING n i \<Rightarrow> tool_invocations s \<le> iterations s \<and> int (iterations s) < max_iterations ae
       | OBSERVING r \<Rightarrow> tool_invocations s \<le> Suc (iterations s) \<and> int (iterations s) < max_iterations ae
       | ANSWERING t \<Rightarrow> True
       | FAULTED f \<Rightarrow> True))"

section \<open>Example configuration\<close>

text \<open>
  A configuration, an environment in which every external call succeeds, and the state of
  a new process and session: the concrete inputs at which the theorems below are applied.
\<close>

definition demo_constants :: constants where
  "demo_constants =
     \<lparr>LOG_DIR_PATH = ''./logs'', LOGGER_NAME = ''ApplicationLog'',
      LOG_FILE = ''application.log'', ENCODING_KIND = ''cl100k_base'',
      MODEL = ''gpt-4o'', TEMPERATURE = 1 / 2,
      DB_CUSTOMER_PATH = ''./.db_customer'', DB_SERVICE_PATH = ''./.db_service'',
      DB_COMPANY_PATH = ''./.db_company'', DB_ALL_PATH = ''./.db_all'',
      SEARCH_COMPANY_INFO_TOOL_NAME = ''search_company_info_tool'',
      SEARCH_SERVICE_INFO_TOOL_NAME = ''search_service_info_tool'',
      SEARCH_CUSTOMER_COMMUNICATION_INFO_TOOL_NAME = ''search_customer_communication_tool'',
      SEARCH_WEB_INFO_TOOL_NAME = ''search_web_tool'',
      SEARCH_ALL_DATA_TOOL_NAME = ''search_all_data_tool'',
      AI_AGENT_MAX_ITERATIONS = 5\<rparr>"

definition demo_env :: env where
  "demo_env =
     \<lparr>ct = demo_constants,
      uuid4_hex = (\<lambda>n. ''0f1e2d3c4b5a69788796a5b4c3d2e1f0''),
      str_of = (\<lambda>v. ''<object>''),
      get_encoding = (\<lambda>kind. Inr (Obj 0)),
      ChatOpenAI = (\<lambda>model_name temperature. Inr (Obj 1)),
      create_rag_chain = (\<lambda>db session. Inr (Obj 2)),
      SerpAPIWrapper = Inr (Obj 3)\<rparr>"

definition fresh_logger :: logger where
  "fresh_logger = \<lparr>handlers = [], level = NOTSET, propagate = True\<rparr>"

definition fresh_world :: world where
  "fresh_world =
     \<lparr>session_state = Map.empty, app_logger = fresh_logger,
      logger_ancestors = [fresh_logger], fs = Map.empty, uuid_calls = 0\<rparr>"

definition session_world :: world where
  "session_world = initialize_session_id demo_env (initialize_session_state fresh_world)"

text \<open>
  A state in which the logger already has its handler and the log directory is missing, a
  session that holds \<open>messages\<close> and nothing else, and collaborators of the agent loop whose
  model output never parses.
\<close>

definition logged_world :: world where
  "logged_world = (snd (initialize_logger demo_env session_world))\<lparr>fs := Map.empty\<rparr>"

definition returning_world :: world where
  "returning_world =
     fresh_world\<lparr>session_state := [''messages'' \<mapsto> VList [VStr ''hello'']]\<rparr>"

definition demo_collaborators :: collaborators where
  "demo_collaborators =
     \<lparr>model_output = (\<lambda>items. ParseError ''I should look this up''),
      invoke_tool = (\<lambda>tool_name tool_input. Inr ''no result''),
      generate_answer = (\<lambda>items. ''best effort''),
      parse_failure_observation = (\<lambda>raw. ''Invalid or incomplete response'')\<rparr>"

section \<open>The loop runs to a terminal state\<close>

lemma run_turn_stop: "terminal (phase s) \<Longrightarrow> run_turn ae c s = s"
  by (simp add: run_turn.simps)

lemma run_turn_continue:
  "\<not> terminal (phase s) \<Longrightarrow> run_turn ae c s = run_turn ae c (step ae c s)"
  by (simp add: run_turn.simps [of ae c s])

lemma within_bound_step: "within_bound ae s \<Longrightarrow> within_bound ae (step ae c s)"
  by (cases "phase s")
    (auto simp: step_def within_bound_def split: decision.splits sum.splits)

lemma within_bound_run: "within_bound ae s \<Longrightarrow> within_bound ae (run_turn ae c s)"
proof (induction ae c s rule: run_turn.induct)
  case (1 ae c s)
  show ?case
  proof (cases "terminal (phase s)")
    case True
    with "1.prems" show ?thesis by (simp add: run_turn.simps)
  next
    case False
    with "1.IH" "1.prems" show ?thesis
      by (simp add: run_turn.simps [of ae c s] within_bound_step)
  qed
qed

lemma run_turn_terminal: "terminal (phase (run_turn ae c s))"
proof (induction ae c s rule: run_turn.induct)
  case (1 ae c s)
  then show ?case by (cases "terminal (phase s)") (simp_all add: run_turn.simps [of ae c s])
qed

section \<open>Properties of the initialization functions\<close>

lemma set_attr_simps:
  "session_state (set_attr k v w) = (session_state w)(k \<mapsto> v)"
  "app_logger (set_attr k v w) = app_logger w"
  "logger_ancestors (set_attr k v w) = logger_ancestors w"
  "fs (set_attr k v w) = fs w"
  "uuid_calls (set_attr k v w) = uuid_calls w"
  by (simp_all add: set_attr_def)

lemma initialize_session_state_present:
  "session_state w ''messages'' \<noteq> None \<Longrightarrow> initialize_session_state w = w"
  by (auto simp: initialize_session_state_def)

lemma initialize_session_state_messages:
  "session_state (initialize_session_state w) ''messages'' \<noteq> None"
  by (simp add: initialize_session_state_def set_attr_simps)

lemma initialize_session_id_present:
  "session_state w ''session_id'' \<noteq> None \<Longrightarrow> initialize_session_id e w = w"
  by (auto simp: initialize_session_id_def)

lemma initialize_session_id_sets:
  "session_state (initialize_session_id e w) ''session_id'' \<noteq> None"
  by (simp add: initialize_session_id_def set_attr_simps)

lemma initialize_session_id_messages:
  "session_state (initialize_session_id e w) ''messages'' = session_state w ''messages''"
  by (simp add: initialize_session_id_def set_attr_simps)

lemma makedirs_again: "makedirs p f = Inr f' \<Longrightarrow> makedirs p f' = Inr f'"
  by (auto simp: makedirs_def split: if_splits option.splits node.splits)

lemma makedirs_dir: "makedirs p f = Inr f' \<Longrightarrow> f' p = Some Dir"
  by (auto simp: makedirs_def split: if_splits option.splits node.splits)

lemma open_append_keeps_dir:
  "open_append q f = Inr f' \<Longrightarrow> f p = Some Dir \<Longrightarrow> f' p = Some Dir"
  by (auto simp: open_append_def split: option.splits node.splits)

lemma makedirs_present: "p \<noteq> [] \<Longrightarrow> f p = Some Dir \<Longrightarrow> makedirs p f = Inr f"
  by (simp add: makedirs_def)

lemma makedirs_nonempty: "makedirs p f = Inr f' \<Longrightarrow> p \<noteq> []"
  by (auto simp: makedirs_def split: if_splits)

lemma initialize_logger_noop:
  assumes "hasHandlers (app_logger w # logger_ancestors w)"
    and "makedirs (LOG_DIR_PATH (ct e)) (fs w) = Inr (fs w)"
  shows "initialize_logger e w = (None, w)"
  using assms by (simp add: initialize_logger_def Let_def del: hasHandlers.simps)

lemma initialize_logger_guarded:
  assumes "makedirs (LOG_DIR_PATH (ct e)) (fs w) = Inr f1"
    and "hasHandlers (app_logger w # logger_ancestors w)"
  shows "initialize_logger e w = (None, w\<lparr>fs := f1\<rparr>)"
  using assms by (simp add: initialize_logger_def Let_def del: hasHandlers.simps)

lemma initialize_logger_attaches:
  assumes "makedirs (LOG_DIR_PATH (ct e)) (fs w) = Inr f1"
    and "\<not> hasHandlers (app_logger w # logger_ancestors w)"
    and "open_append (path_join (LOG_DIR_PATH (ct e)) (LOG_FILE (ct e))) f1 = Inr f2"
    and "session_state w ''session_id'' = Some sid"
  shows "initialize_logger e w =
           (None, w\<lparr>fs := f2,
                    app_logger := (app_logger w)
                      \<lparr>level := INFO,
                       handlers := handlers (app_logger w) @ [attached_handler e sid]\<rparr>\<rparr>)"
  using assms
  by (simp add: initialize_logger_def Let_def attached_handler_def del: hasHandlers.simps)

lemma initialize_logger_cases:
  assumes "initialize_logger e w = (None, w')"
  obtains (guarded) f1 where "makedirs (LOG_DIR_PATH (ct e)) (fs w) = Inr f1"
      and "hasHandlers (app_logger w # logger_ancestors w)"
      and "w' = w\<lparr>fs := f1\<rparr>"
  | (attached) f1 f2 sid where "makedirs (LOG_DIR_PATH (ct e)) (fs w) = Inr f1"
      and "\<not> hasHandlers (app_logger w # logger_ancestors w)"
      and "open_append (path_join (LOG_DIR_PATH (ct e)) (LOG_FILE (ct e))) f1 = Inr f2"
      and "session_state w ''session_id'' = Some sid"
      and "w' = w\<lparr>fs := f2,
                   app_logger := (app_logger w)
                     \<lparr>level := INFO,
                      handlers := handlers (app_logger w) @ [attached_handler e sid]\<rparr>\<rparr>"
proof (cases "makedirs (LOG_DIR_PATH (ct e)) (fs w)")
  case (Inl err)
  with assms show ?thesis by (simp add: initialize_logger_def)
next
  case (Inr f1)
  show ?thesis
  proof (cases "hasHandlers (app_logger w # logger_ancestors w)")
    case True
    show ?thesis
      using guarded [OF Inr True] assms initialize_logger_guarded [OF Inr True]
      by (simp del: hasHandlers.simps)
  next
    case False
    show ?thesis
    proof (cases "open_append (path_join (LOG_DIR_PATH (ct e)) (LOG_FILE (ct e))) f1")
      case (Inl err)
      with Inr False assms show ?thesis
        by (simp add: initialize_logger_def Let_def del: hasHandlers.simps)
    next
      case f2: (Inr f2)
      show ?thesis
      proof (cases "session_state w ''session_id''")
        case None
        with Inr False f2 assms show ?thesis
          by (simp add: initialize_logger_def Let_def del: hasHandlers.simps)
      next
        case (Some sid)
        show ?thesis
          using attached [OF Inr False f2 Some] assms
            initialize_logger_attaches [OF Inr False f2 Some]
          by (simp del: hasHandlers.simps)
      qed
    qed
  qed
qed

lemma initialize_logger_returns:
  assumes "initialize_logger e w = (None, w')"
  shows "hasHandlers (app_logger w' # logger_ancestors w')"
    and "makedirs (LOG_DIR_PATH (ct e)) (fs w') = Inr (fs w')"
    and "session_state w' = session_state w"
    and "uuid_calls w' = uuid_calls w"
proof -
  show "hasHandlers (app_logger w' # logger_ancestors w')"
    using assms by (cases rule: initialize_logger_cases) simp_all
  show "makedirs (LOG_DIR_PATH (ct e)) (fs w') = Inr (fs w')"
    using assms
  proof (cases rule: initialize_logger_cases)
    case (guarded f1)
    then show ?thesis by (simp add: makedirs_again)
  next
    case (attached f1 f2 sid)
    from attached(1) have "f1 (LOG_DIR_PATH (ct e)) = Some Dir" "LOG_DIR_PATH (ct e) \<noteq> []"
      by (rule makedirs_dir, rule makedirs_nonempty)
    with attached(3) have "makedirs (LOG_DIR_PATH (ct e)) f2 = Inr f2"
      by (simp add: makedirs_present open_append_keeps_dir)
    with attached(5) show ?thesis by simp
  qed
  show "session_state w' = session_state w"
    using assms by (cases rule: initialize_logger_cases) simp_all
  show "uuid_calls w' = uuid_calls w"
    using assms by (cases rule: initialize_logger_cases) simp_all
qed

lemma assign_cases:
  assumes "assign k r w = (None, w')"
  obtains x where "r = Inr x" and "w' = set_attr k (VObj x) w"
  using assms by (cases r) (simp_all add: assign_def)

lemma assign_frame:
  assumes "assign k r w = (None, w')"
  shows "app_logger w' = app_logger w" and "logger_ancestors w' = logger_ancestors w"
    and "fs w' = fs w" and "uuid_calls w' = uuid_calls w"
    and "k' \<noteq> k \<Longrightarrow> session_state w' k' = session_state w k'"
  using assms by (auto elim!: assign_cases simp: set_attr_simps)

lemma initialize_agent_executor_present:
  "session_state w ''agent_executor'' \<noteq> None \<Longrightarrow> initialize_agent_executor e w = (None, w)"
  by (auto simp: initialize_agent_executor_def)

lemma initialize_agent_executor_created:
  assumes "initialize_agent_executor e w = (None, w')"
    and "session_state w ''agent_executor'' = None"
  shows "\<exists>l search. session_state w' ''agent_executor'' =
           Some (VAgent (initialize_agent l (tool_list (ct e) search)
                          ZERO_SHOT_REACT_DESCRIPTION (AI_AGENT_MAX_ITERATIONS (ct e))
                          ''generate'' True))"
  using assms
  apply (auto simp: initialize_agent_executor_def Let_def set_attr_simps
      elim!: assign_cases split: prod.splits option.splits sum.splits)
  apply (intro exI, rule refl)
  done

lemma initialize_agent_executor_returns:
  assumes "initialize_agent_executor e w = (None, w')"
  shows "session_state w' ''agent_executor'' \<noteq> None"
    and "app_logger w' = app_logger w" and "logger_ancestors w' = logger_ancestors w"
    and "fs w' = fs w" and "uuid_calls w' = uuid_calls w"
    and "session_state w' ''messages'' = session_state w ''messages''"
    and "session_state w' ''session_id'' = session_state w ''session_id''"
  using assms
  by (auto simp: initialize_agent_executor_def Let_def set_attr_simps
      elim!: assign_cases split: if_splits prod.splits option.splits sum.splits)

lemma initialize_split:
  assumes "initialize e w = (None, w')"
  obtains w3 where
    "initialize_logger e (initialize_session_id e (initialize_session_state w)) = (None, w3)"
    and "initialize_agent_executor e w3 = (None, w')"
  using assms
  by (auto simp: initialize_def Let_def split: prod.splits option.splits)

lemmas demo_defs = demo_constants_def demo_env_def fresh_logger_def fresh_world_def
  session_world_def

lemma fresh_world_no_handlers:
  "\<not> hasHandlers (app_logger fresh_world # logger_ancestors fresh_world)"
  by (simp add: demo_defs)

lemma session_world_no_handlers:
  "\<not> hasHandlers (app_logger session_world # logger_ancestors session_world)"
  by (simp add: demo_defs initialize_session_id_def initialize_session_state_def set_attr_def)

lemma session_world_logger_returns:
  "fst (initialize_logger demo_env session_world) = None"
  by (simp add: demo_defs initialize_session_id_def initialize_session_state_def set_attr_def
      initialize_logger_def makedirs_def open_append_def path_join_def Let_def)

lemma fresh_world_agent_returns:
  "fst (initialize_agent_executor demo_env fresh_world) = None"
  by (simp add: demo_defs initialize_agent_executor_def assign_def set_attr_def Let_def)

lemma fresh_world_initialize_returns:
  "fst (initialize demo_env fresh_world) = None"
proof -
  obtain w3 where w3: "initialize_logger demo_env session_world = (None, w3)"
    using session_world_logger_returns by (cases "initialize_logger demo_env session_world") simp
  have "session_state w3 ''agent_executor'' = None"
    using initialize_logger_returns(3) [OF w3]
    by (simp add: demo_defs initialize_session_id_def initialize_session_state_def set_attr_def)
  then have "fst (initialize_agent_executor demo_env w3) = None"
    by (simp add: demo_env_def initialize_agent_executor_def assign_def set_attr_def Let_def)
  with w3 show ?thesis
    by (simp add: initialize_def Let_def session_world_def)
qed

section \<open>Initialization is idempotent\<close>

text \<open>
  C1. Running \<open>initialize\<close> again on the state a run of \<open>initialize\<close> returned leaves that
  state as it is: the session-state fields, the session id, the logger's handler and the
  agent executor are each guarded by a key or a handler that the first run left in place.
\<close>

theorem initialize_idempotent:
  assumes "initialize e w = (None, w')"
  shows "initialize e w' = (None, w')"
proof -
  from assms obtain w3 where
    lg: "initialize_logger e (initialize_session_id e (initialize_session_state w)) = (None, w3)"
    and ag: "initialize_agent_executor e w3 = (None, w')"
    by (rule initialize_split)
  let ?w2 = "initialize_session_id e (initialize_session_state w)"
  have "session_state ?w2 ''messages'' \<noteq> None"
    by (simp add: initialize_session_id_messages initialize_session_state_messages)
  then have m: "session_state w' ''messages'' \<noteq> None"
    using initialize_logger_returns(3) [OF lg] initialize_agent_executor_returns(6) [OF ag]
    by simp
  have "session_state ?w2 ''session_id'' \<noteq> None"
    by (rule initialize_session_id_sets)
  then have s: "session_state w' ''session_id'' \<noteq> None"
    using initialize_logger_returns(3) [OF lg] initialize_agent_executor_returns(7) [OF ag]
    by simp
  have h: "hasHandlers (app_logger w' # logger_ancestors w')"
    using initialize_logger_returns(1) [OF lg] initialize_agent_executor_returns(2,3) [OF ag]
    by (simp del: hasHandlers.simps)
  have d: "makedirs (LOG_DIR_PATH (ct e)) (fs w') = Inr (fs w')"
    using initialize_logger_returns(2) [OF lg] initialize_agent_executor_returns(4) [OF ag]
    by simp
  have a: "session_state w' ''agent_executor'' \<noteq> None"
    by (rule initialize_agent_executor_returns(1) [OF ag])
  have "initialize_session_state w' = w'"
    by (rule initialize_session_state_present [OF m])
  moreover have "initialize_session_id e w' = w'"
    by (rule initialize_session_id_present [OF s])
  moreover have "initialize_logger e w' = (None, w')"
    by (rule initialize_logger_noop [OF h d])
  moreover have "initialize_agent_executor e w' = (None, w')"
    by (rule initialize_agent_executor_present [OF a])
  ultimately show ?thesis
    by (simp add: initialize_def)
qed

theorem initialize_idempotent_witness:
  "fst (initialize demo_env fresh_world) = None \<and>
   initialize demo_env (snd (initialize demo_env fresh_world)) =
     (None, snd (initialize demo_env fresh_world))"
proof -
  have h: "initialize demo_env fresh_world = (None, snd (initialize demo_env fresh_world))"
    using fresh_world_initialize_returns by (simp add: prod_eq_iff)
  show ?thesis
    using initialize_idempotent [OF h] fresh_world_initialize_returns by simp
qed

section \<open>The logger gets one handler\<close>

lemma repeat_initialize_logger_noop:
  assumes "hasHandlers (app_logger w # logger_ancestors w)"
    and "makedirs (LOG_DIR_PATH (ct e)) (fs w) = Inr (fs w)"
  shows "repeat_initialize_logger n e w = (None, w)"
  by (induction n) (simp_all add: initialize_logger_noop [OF assms])

text \<open>
  C2. Starting from a logger that has no handler of its own and inherits none, any number
  \<open>n \<ge> 1\<close> of calls of \<open>initialize_logger\<close>, the first of which returns, leaves the logger
  with exactly one handler, a \<open>TimedRotatingFileHandler\<close>: the first call attaches it and
  every later call returns at the guard, so the state after \<open>n\<close> calls is the state after
  the first.
\<close>

theorem initialize_logger_one_handler:
  assumes "\<not> hasHandlers (app_logger w # logger_ancestors w)"
    and "initialize_logger e w = (None, w1)"
    and "1 \<le> n"
  shows "repeat_initialize_logger n e w = (None, w1)
         \<and> length (handlers (app_logger w1)) = 1
         \<and> cls (hd (handlers (app_logger w1))) = TimedRotatingFileHandler"
proof -
  from assms(3) obtain k where n: "n = Suc k"
    by (cases n) simp_all
  have "repeat_initialize_logger k e w1 = (None, w1)"
    by (rule repeat_initialize_logger_noop
        [OF initialize_logger_returns(1) [OF assms(2)] initialize_logger_returns(2) [OF assms(2)]])
  with assms(2) n have "repeat_initialize_logger n e w = (None, w1)"
    by simp
  moreover from assms(1) have "handlers (app_logger w) = []"
    by (simp split: if_splits)
  with assms(2) assms(1) have "handlers (app_logger w1) = [attached_handler e
      (the (session_state w ''session_id''))]"
    by (cases rule: initialize_logger_cases) simp_all
  ultimately show ?thesis
    by (simp add: attached_handler_def)
qed

theorem initialize_logger_one_handler_witness:
  "repeat_initialize_logger 3 demo_env session_world =
     (None, snd (initialize_logger demo_env session_world))
   \<and> length (handlers (app_logger (snd (initialize_logger demo_env session_world)))) = 1
   \<and> cls (hd (handlers (app_logger (snd (initialize_logger demo_env session_world)))))
       = TimedRotatingFileHandler"
proof -
  have h: "initialize_logger demo_env session_world =
      (None, snd (initialize_logger demo_env session_world))"
    using session_world_logger_returns by (simp add: prod_eq_iff)
  have n: "(1::nat) \<le> 3" by simp
  show ?thesis
    by (rule initialize_logger_one_handler [OF session_world_no_handlers h n])
qed

section \<open>The order of the four steps\<close>

text \<open>
  C3. \<open>initialize\<close> runs \<open>initialize_session_state\<close>, then \<open>initialize_session_id\<close>, then
  \<open>initialize_logger\<close> and, when that returns, \<open>initialize_agent_executor\<close>. The state the
  logger step receives holds \<open>messages\<close> and \<open>session_id\<close>, so the format string is built
  from an existing session id and the step never fails for a missing one.
\<close>

theorem initialize_order:
  "initialize e w =
     (case initialize_logger e (initialize_session_id e (initialize_session_state w)) of
        (Some err, w3) \<Rightarrow> (Some err, w3)
      | (None, w3) \<Rightarrow> initialize_agent_executor e w3)
   \<and> session_state (initialize_session_id e (initialize_session_state w)) ''messages'' \<noteq> None
   \<and> session_state (initialize_session_id e (initialize_session_state w)) ''session_id'' \<noteq> None
   \<and> fst (initialize_logger e (initialize_session_id e (initialize_session_state w)))
        \<noteq> Some (AttributeError ''session_id'')"
proof -
  let ?w2 = "initialize_session_id e (initialize_session_state w)"
  have sid: "session_state ?w2 ''session_id'' \<noteq> None"
    by (rule initialize_session_id_sets)
  have "fst (initialize_logger e ?w2) \<noteq> Some (AttributeError ''session_id'')"
    using sid
    by (auto simp: initialize_logger_def Let_def makedirs_def open_append_def
        simp del: hasHandlers.simps split: sum.splits option.splits if_splits node.splits)
  moreover have "session_state ?w2 ''messages'' \<noteq> None"
    by (simp add: initialize_session_id_messages initialize_session_state_messages)
  ultimately show ?thesis
    using sid by (simp add: initialize_def Let_def)
qed

text \<open>
  The order matters: on a state without \<open>session_id\<close>, a call of \<open>initialize_logger\<close> that
  gets past its guard raises when it builds the format string, after the log file was
  opened and before a handler is attached.
\<close>

lemma initialize_logger_needs_session_id:
  assumes "makedirs (LOG_DIR_PATH (ct e)) (fs w) = Inr f1"
    and "\<not> hasHandlers (app_logger w # logger_ancestors w)"
    and "open_append (path_join (LOG_DIR_PATH (ct e)) (LOG_FILE (ct e))) f1 = Inr f2"
    and "session_state w ''session_id'' = None"
  shows "initialize_logger e w = (Some (AttributeError ''session_id''), w\<lparr>fs := f2\<rparr>)"
  using assms by (simp add: initialize_logger_def Let_def del: hasHandlers.simps)

section \<open>The log sink\<close>



section \<open>The directory is created before the guard\<close>

lemma initialize_logger_keeps_dir:
  assumes "makedirs (LOG_DIR_PATH (ct e)) (fs w) = Inr f1"
  shows "fs (snd (initialize_logger e w)) (LOG_DIR_PATH (ct e)) = Some Dir"
proof -
  have d: "f1 (LOG_DIR_PATH (ct e)) = Some Dir"
    by (rule makedirs_dir [OF assms])
  show ?thesis
  proof (cases "hasHandlers (app_logger w # logger_ancestors w)")
    case True
    then show ?thesis
      using assms d by (simp add: initialize_logger_guarded del: hasHandlers.simps)
  next
    case False
    show ?thesis
    proof (cases "open_append (path_join (LOG_DIR_PATH (ct e)) (LOG_FILE (ct e))) f1")
      case (Inl err)
      then show ?thesis
        using assms d False by (simp add: initialize_logger_def Let_def del: hasHandlers.simps)
    next
      case (Inr f2)
      then have "f2 (LOG_DIR_PATH (ct e)) = Some Dir"
        using d by (rule open_append_keeps_dir)
      then show ?thesis
        using assms False Inr
        by (simp add: initialize_logger_def Let_def del: hasHandlers.simps split: option.splits)
    qed
  qed
qed

text \<open>
  C9. \<open>initialize_logger\<close> calls \<open>makedirs\<close> before it looks at the handlers: when
  \<open>makedirs\<close> raises, the call raises the same error whatever the handlers are; when it
  returns, the log directory exists after the call on every path, and on the path where the
  logger already has handlers the call returns with the file system as \<open>makedirs\<close> left it
  and with the logger's level and handlers as they were.
\<close>

theorem initialize_logger_makedirs_first:
  "(case makedirs (LOG_DIR_PATH (ct e)) (fs w) of
      Inl err \<Rightarrow> initialize_logger e w = (Some err, w)
    | Inr f1 \<Rightarrow>
        fs (snd (initialize_logger e w)) (LOG_DIR_PATH (ct e)) = Some Dir
        \<and> (hasHandlers (app_logger w # logger_ancestors w) \<longrightarrow>
             initialize_logger e w = (None, w\<lparr>fs := f1\<rparr>)
             \<and> level (app_logger (snd (initialize_logger e w))) = level (app_logger w)
             \<and> handlers (app_logger (snd (initialize_logger e w))) = handlers (app_logger w)))"
proof (cases "makedirs (LOG_DIR_PATH (ct e)) (fs w)")
  case (Inl err)
  then show ?thesis by (simp add: initialize_logger_def)
next
  case (Inr f1)
  then show ?thesis
    by (simp add: initialize_logger_keeps_dir initialize_logger_guarded del: hasHandlers.simps)
qed

lemma logged_world_has_handlers:
  "hasHandlers (app_logger logged_world # logger_ancestors logged_world)"
proof -
  have "initialize_logger demo_env session_world =
      (None, snd (initialize_logger demo_env session_world))"
    using session_world_logger_returns by (simp add: prod_eq_iff)
  from initialize_logger_returns(1) [OF this] show ?thesis
    by (simp add: logged_world_def del: hasHandlers.simps)
qed

theorem initialize_logger_makedirs_first_witness:
  "fs logged_world ''./logs'' = None
   \<and> fs (snd (initialize_logger demo_env logged_world)) ''./logs'' = Some Dir
   \<and> initialize_logger demo_env logged_world =
       (None, logged_world\<lparr>fs := [''./logs'' \<mapsto> Dir]\<rparr>)
   \<and> level (app_logger (snd (initialize_logger demo_env logged_world)))
       = level (app_logger logged_world)
   \<and> handlers (app_logger (snd (initialize_logger demo_env logged_world)))
       = handlers (app_logger logged_world)"
proof -
  have m: "makedirs ''./logs'' (fs logged_world) = Inr [''./logs'' \<mapsto> Dir]"
    by (simp add: makedirs_def logged_world_def)
  have p: "LOG_DIR_PATH (ct demo_env) = ''./logs''"
    by (simp add: demo_env_def demo_constants_def)
  have f: "fs logged_world ''./logs'' = None"
    by (simp add: logged_world_def)
  show ?thesis
    using initialize_logger_makedirs_first [of demo_env logged_world]
      logged_world_has_handlers f
    by (simp add: m p del: hasHandlers.simps)
qed

section \<open>The session-state fields\<close>

text \<open>
  C10. \<open>initialize_session_state\<close> tests the key \<open>messages\<close> only. When it is absent the
  function stores empty lists under \<open>messages\<close> and \<open>chat_history\<close>, 0 under \<open>total_tokens\<close>,
  \<open>False\<close> under the four flags and the empty string under \<open>dissatisfied_reason\<close>, and
  changes nothing else; when it is present the state is returned as it is, also where
  other fields are missing.
\<close>

theorem initialize_session_state_guard:
  "(session_state w ''messages'' = None \<longrightarrow>
      initialize_session_state w =
        w\<lparr>session_state := (session_state w)
            (''messages'' \<mapsto> VList [], ''chat_history'' \<mapsto> VList [],
             ''total_tokens'' \<mapsto> VInt 0, ''feedback_yes_flg'' \<mapsto> VBool False,
             ''feedback_no_flg'' \<mapsto> VBool False, ''answer_flg'' \<mapsto> VBool False,
             ''dissatisfied_reason'' \<mapsto> VStr '''',
             ''feedback_no_reason_send_flg'' \<mapsto> VBool False)\<rparr>)
   \<and> (session_state w ''messages'' \<noteq> None \<longrightarrow> initialize_session_state w = w)"
  by (auto simp: initialize_session_state_def set_attr_def)

theorem initialize_session_state_guard_witness:
  "session_state (initialize_session_state fresh_world) =
     [''messages'' \<mapsto> VList [], ''chat_history'' \<mapsto> VList [],
      ''total_tokens'' \<mapsto> VInt 0, ''feedback_yes_flg'' \<mapsto> VBool False,
      ''feedback_no_flg'' \<mapsto> VBool False, ''answer_flg'' \<mapsto> VBool False,
      ''dissatisfied_reason'' \<mapsto> VStr '''',
      ''feedback_no_reason_send_flg'' \<mapsto> VBool False]
   \<and> initialize_session_state returning_world = returning_world
   \<and> session_state (initialize_session_state returning_world) ''total_tokens'' = None"
proof -
  have a: "session_state fresh_world ''messages'' = None"
    by (simp add: fresh_world_def)
  have b: "session_state returning_world ''messages'' \<noteq> None"
    by (simp add: returning_world_def)
  have c: "session_state returning_world ''total_tokens'' = None"
    by (simp add: returning_world_def)
  show ?thesis
    using initialize_session_state_guard [of fresh_world]
      initialize_session_state_guard [of returning_world] a b c
    by (simp add: fresh_world_def)
qed

section \<open>The tool set of the executor\<close>

text \<open>
  C4. When \<open>initialize_agent_executor\<close> creates the executor, the stored executor has
  exactly five tools, which is a non-empty set; the tools' names are the five tool-name
  constants in the order of the source, so they are pairwise different when the constants
  are, and \<open>max_iterations\<close> is \<open>ct.AI_AGENT_MAX_ITERATIONS\<close>, positive when that constant is.
\<close>

theorem tool_set_fixed:
  assumes "initialize_agent_executor e w = (None, w')"
    and "session_state w ''agent_executor'' = None"
    and "distinct [SEARCH_COMPANY_INFO_TOOL_NAME (ct e), SEARCH_SERVICE_INFO_TOOL_NAME (ct e),
                   SEARCH_CUSTOMER_COMMUNICATION_INFO_TOOL_NAME (ct e),
                   SEARCH_WEB_INFO_TOOL_NAME (ct e), SEARCH_ALL_DATA_TOOL_NAME (ct e)]"
    and "0 < AI_AGENT_MAX_ITERATIONS (ct e)"
  shows "\<exists>ae. session_state w' ''agent_executor'' = Some (VAgent ae)
           \<and> length (tools ae) = 5
           \<and> tools ae \<noteq> []
           \<and> distinct (map name (tools ae))
           \<and> 0 < max_iterations ae"
proof -
  from initialize_agent_executor_created [OF assms(1,2)] obtain l search where
    "session_state w' ''agent_executor'' =
       Some (VAgent (initialize_agent l (tool_list (ct e) search)
                      ZERO_SHOT_REACT_DESCRIPTION (AI_AGENT_MAX_ITERATIONS (ct e))
                      ''generate'' True))"
    by blast
  moreover have "map name (tool_list (ct e) search) =
      [SEARCH_COMPANY_INFO_TOOL_NAME (ct e), SEARCH_SERVICE_INFO_TOOL_NAME (ct e),
       SEARCH_CUSTOMER_COMMUNICATION_INFO_TOOL_NAME (ct e),
       SEARCH_WEB_INFO_TOOL_NAME (ct e), SEARCH_ALL_DATA_TOOL_NAME (ct e)]"
    by (simp add: tool_list_def)
  moreover have "length (tool_list (ct e) search) = 5" "tool_list (ct e) search \<noteq> []"
    by (simp_all add: tool_list_def)
  ultimately show ?thesis
    using assms(3,4) by (simp add: initialize_agent_def del: distinct.simps)
qed

theorem tool_set_fixed_witness:
  "\<exists>ae. session_state (snd (initialize_agent_executor demo_env fresh_world)) ''agent_executor''
           = Some (VAgent ae)
         \<and> length (tools ae) = 5
         \<and> tools ae \<noteq> []
         \<and> distinct (map name (tools ae))
         \<and> 0 < max_iterations ae"
proof -
  have h: "initialize_agent_executor demo_env fresh_world =
      (None, snd (initialize_agent_executor demo_env fresh_world))"
    using fresh_world_agent_returns by (simp add: prod_eq_iff)
  have a: "session_state fresh_world ''agent_executor'' = None"
    by (simp add: fresh_world_def)
  have d: "distinct [SEARCH_COMPANY_INFO_TOOL_NAME (ct demo_env),
      SEARCH_SERVICE_INFO_TOOL_NAME (ct demo_env),
      SEARCH_CUSTOMER_COMMUNICATION_INFO_TOOL_NAME (ct demo_env),
      SEARCH_WEB_INFO_TOOL_NAME (ct demo_env), SEARCH_ALL_DATA_TOOL_NAME (ct demo_env)]"
    by (simp add: demo_env_def demo_constants_def)
  have p: "0 < AI_AGENT_MAX_ITERATIONS (ct demo_env)"
    by (simp add: demo_env_def demo_constants_def)
  show ?thesis
    by (rule tool_set_fixed [OF h a d p])
qed

section \<open>The bound on tool invocations\<close>

text \<open>
  C5. In one user turn the controller invokes a tool at most \<open>max_iterations\<close> times, for
  the executor \<open>initialize_agent\<close> builds from any arguments, whatever the model answers
  and the tools return.
\<close>

theorem tool_invocations_bounded:
  "int (tool_invocations
          (run_turn (initialize_agent l ts a m stop hp) c (start_turn query))) \<le> max 0 m"
proof -
  let ?ae = "initialize_agent l ts a m stop hp"
  have "within_bound ?ae (start_turn query)"
    by (simp add: within_bound_def start_turn_def)
  then have "within_bound ?ae (run_turn ?ae c (start_turn query))"
    by (rule within_bound_run)
  then have "tool_invocations (run_turn ?ae c (start_turn query)) \<le> nat (max_iterations ?ae)"
    by (simp add: within_bound_def)
  then show ?thesis by (simp add: initialize_agent_def)
qed

text \<open>
  C6. With the early stopping method \<open>generate\<close> that \<open>initialize_agent_executor\<close> passes,
  a turn whose counter has reached \<open>max_iterations\<close> ends in \<open>ANSWERING\<close> with the generated
  best-effort answer, marked as forced, and not in a fault.
\<close>

theorem iteration_exhaustion_forces_answer:
  assumes "phase s = THINKING" and "m \<le> int (iterations s)"
  shows "run_turn (initialize_agent l ts a m ''generate'' hp) c s =
           s\<lparr>phase := ANSWERING (generate_answer c (ctx s)), forced := True\<rparr>"
proof -
  let ?ae = "initialize_agent l ts a m ''generate'' hp"
  have "step ?ae c s = s\<lparr>phase := ANSWERING (generate_answer c (ctx s)), forced := True\<rparr>"
    using assms by (simp add: step_def initialize_agent_def)
  moreover have "run_turn ?ae c s = run_turn ?ae c (step ?ae c s)"
    using assms(1) by (simp add: run_turn_continue)
  ultimately show ?thesis
    by (simp add: run_turn_stop)
qed

theorem iteration_exhaustion_forces_answer_witness:
  "run_turn (initialize_agent (Obj 1) (tool_list demo_constants (Obj 3))
       ZERO_SHOT_REACT_DESCRIPTION 5 ''generate'' True) demo_collaborators
     ((start_turn ''question'')\<lparr>iterations := 5\<rparr>) =
   \<lparr>phase = ANSWERING ''best effort'', iterations = 5, ctx = [''question''],
     tool_invocations = 0, forced = True\<rparr>"
proof -
  have p: "phase ((start_turn ''question'')\<lparr>iterations := 5\<rparr>) = THINKING"
    by (simp add: start_turn_def)
  have i: "(5::int) \<le> int (iterations ((start_turn ''question'')\<lparr>iterations := 5\<rparr>))"
    by simp
  show ?thesis
    using iteration_exhaustion_forces_answer [OF p i, of "Obj 1"
        "tool_list demo_constants (Obj 3)" ZERO_SHOT_REACT_DESCRIPTION True demo_collaborators]
    by (simp add: start_turn_def demo_collaborators_def)
qed

text \<open>
  C7. With \<open>handle_parsing_errors\<close> on, as \<open>initialize_agent_executor\<close> passes it, model
  output that fails to parse leaves the controller in \<open>THINKING\<close>: the observation that
  describes the failure is appended to the context, the counter goes up by one, and the
  loop goes on from that state.
\<close>

theorem parse_failure_continues:
  assumes "phase s = THINKING" and "int (iterations s) < m"
    and "model_output c (ctx s) = ParseError raw"
  shows "step (initialize_agent l ts a m stop True) c s =
           s\<lparr>ctx := ctx s @ [parse_failure_observation c raw],
             iterations := Suc (iterations s)\<rparr>
         \<and> run_turn (initialize_agent l ts a m stop True) c s =
           run_turn (initialize_agent l ts a m stop True) c
             (s\<lparr>ctx := ctx s @ [parse_failure_observation c raw],
                iterations := Suc (iterations s)\<rparr>)"
proof -
  let ?ae = "initialize_agent l ts a m stop True"
  have st: "step ?ae c s = s\<lparr>ctx := ctx s @ [parse_failure_observation c raw],
             iterations := Suc (iterations s)\<rparr>"
    using assms by (simp add: step_def initialize_agent_def)
  moreover have "run_turn ?ae c s = run_turn ?ae c (step ?ae c s)"
    using assms(1) by (simp add: run_turn.simps [of ?ae c s])
  ultimately show ?thesis by simp
qed

theorem parse_failure_continues_witness:
  "step (initialize_agent (Obj 1) (tool_list demo_constants (Obj 3))
       ZERO_SHOT_REACT_DESCRIPTION 5 ''generate'' True) demo_collaborators
     (start_turn ''question'') =
   \<lparr>phase = THINKING, iterations = 1,
     ctx = [''question'', ''Invalid or incomplete response''],
     tool_invocations = 0, forced = False\<rparr>
   \<and> run_turn (initialize_agent (Obj 1) (tool_list demo_constants (Obj 3))
       ZERO_SHOT_REACT_DESCRIPTION 5 ''generate'' True) demo_collaborators
     (start_turn ''question'') =
     run_turn (initialize_agent (Obj 1) (tool_list demo_constants (Obj 3))
       ZERO_SHOT_REACT_DESCRIPTION 5 ''generate'' True) demo_collaborators
     \<lparr>phase = THINKING, iterations = 1,
       ctx = [''question'', ''Invalid or incomplete response''],
       tool_invocations = 0, forced = False\<rparr>"
proof -
  have p: "phase (start_turn ''question'') = THINKING"
    by (simp add: start_turn_def)
  have i: "int (iterations (start_turn ''question'')) < 5"
    by (simp add: start_turn_def)
  have m: "model_output demo_collaborators (ctx (start_turn ''question'')) =
      ParseError ''I should look this up''"
    by (simp add: demo_collaborators_def)
  show ?thesis
    using parse_failure_continues [OF p i m, of "Obj 1" "tool_list demo_constants (Obj 3)"
        ZERO_SHOT_REACT_DESCRIPTION "''generate''"]
    by (simp add: start_turn_def demo_collaborators_def)
qed

end
